theory Spec2Isabelle
  imports Main "HOL-Library.Word" "HOL-Library.AList"
begin

unbundle bit_operations_syntax

section \<open>Basic types of the wire protocol\<close>

text \<open>
  Go's \<open>byte\<close>, \<open>uint32\<close>, \<open>uint64\<close> and \<open>int64\<close> are words of the matching width.
  A Go \<open>string\<close> is a sequence of bytes; it is modelled by \<open>string\<close>, and the codec
  converts between characters and bytes one by one.
\<close>

type_synonym byte = "8 word"
type_synonym uint32 = "32 word"
type_synonym uint64 = "64 word"
type_synonym int64 = "64 word"

definition bytes_of_string :: "string \<Rightarrow> byte list" where
  "bytes_of_string v = map (\<lambda>c. of_nat (of_char c)) v"

definition string_of_bytes :: "byte list \<Rightarrow> string" where
  "string_of_bytes b = map (\<lambda>w. char_of (unat w)) b"

subsection \<open>Errors\<close>

text \<open>
  Every error value the modelled code creates or compares against. \<open>Errno\<close> and
  \<open>PathError\<close> stand for \<open>syscall.Errno\<close> and \<open>*os.PathError\<close>, which a backend may
  return; \<open>OtherError\<close> is any other error, with its message.
\<close>

datatype error =
    EOF
  | ErrUnexpectedEOF
  | ErrNotExist
  | ErrPermission
  | ErrInvalidHandle
  | ErrUnsupported
  | ErrBadRead
  | ErrTooManyOpenFiles
  | errShortPacket
  | ErrPacketTooLarge
  | ErrPacketTooSmall
  | ErrUnhandledPacketType byte
  | Errno nat
  | PathError string string error
  | OtherError string

text \<open>A call either panics, returns an error, or returns a value.\<close>

datatype 'a result = Panic | Error error | Ok 'a

subsection \<open>Protocol constants\<close>

definition FXP_INIT :: byte where "FXP_INIT = 1"
definition FXP_VERSION :: byte where "FXP_VERSION = 2"
definition FXP_OPEN :: byte where "FXP_OPEN = 3"
definition FXP_CLOSE :: byte where "FXP_CLOSE = 4"
definition FXP_READ :: byte where "FXP_READ = 5"
definition FXP_WRITE :: byte where "FXP_WRITE = 6"
definition FXP_LSTAT :: byte where "FXP_LSTAT = 7"
definition FXP_FSTAT :: byte where "FXP_FSTAT = 8"
definition FXP_SETSTAT :: byte where "FXP_SETSTAT = 9"
definition FXP_FSETSTAT :: byte where "FXP_FSETSTAT = 10"
definition FXP_OPENDIR :: byte where "FXP_OPENDIR = 11"
definition FXP_READDIR :: byte where "FXP_READDIR = 12"
definition FXP_REMOVE :: byte where "FXP_REMOVE = 13"
definition FXP_MKDIR :: byte where "FXP_MKDIR = 14"
definition FXP_RMDIR :: byte where "FXP_RMDIR = 15"
definition FXP_REALPATH :: byte where "FXP_REALPATH = 16"
definition FXP_STAT :: byte where "FXP_STAT = 17"
definition FXP_RENAME :: byte where "FXP_RENAME = 18"
definition FXP_READLINK :: byte where "FXP_READLINK = 19"
definition FXP_SYMLINK :: byte where "FXP_SYMLINK = 20"

lemmas FXP_defs =
  FXP_INIT_def FXP_VERSION_def FXP_OPEN_def FXP_CLOSE_def FXP_READ_def FXP_WRITE_def
  FXP_LSTAT_def FXP_FSTAT_def FXP_SETSTAT_def FXP_FSETSTAT_def FXP_OPENDIR_def
  FXP_READDIR_def FXP_REMOVE_def FXP_MKDIR_def FXP_RMDIR_def FXP_REALPATH_def
  FXP_STAT_def FXP_RENAME_def FXP_READLINK_def FXP_SYMLINK_def

definition FX_OK :: uint32 where "FX_OK = 0"
definition FX_EOF :: uint32 where "FX_EOF = 1"
definition FX_NO_SUCH_FILE :: uint32 where "FX_NO_SUCH_FILE = 2"
definition FX_PERMISSION_DENIED :: uint32 where "FX_PERMISSION_DENIED = 3"
definition FX_FAILURE :: uint32 where "FX_FAILURE = 4"
definition FX_OP_UNSUPPORTED :: uint32 where "FX_OP_UNSUPPORTED = 8"

lemmas FX_defs =
  FX_OK_def FX_EOF_def FX_NO_SUCH_FILE_def FX_PERMISSION_DENIED_def FX_FAILURE_def
  FX_OP_UNSUPPORTED_def

definition FXF_READ :: uint32 where "FXF_READ = 0x00000001"
definition FXF_WRITE :: uint32 where "FXF_WRITE = 0x00000002"
definition FXF_APPEND :: uint32 where "FXF_APPEND = 0x00000004"
definition FXF_CREAT :: uint32 where "FXF_CREAT = 0x00000008"
definition FXF_TRUNC :: uint32 where "FXF_TRUNC = 0x00000010"
definition FXF_EXCL :: uint32 where "FXF_EXCL = 0x00000020"

lemmas FXF_defs =
  FXF_READ_def FXF_WRITE_def FXF_APPEND_def FXF_CREAT_def FXF_TRUNC_def FXF_EXCL_def

definition FILEXFER_ATTR_SIZE :: uint32 where "FILEXFER_ATTR_SIZE = 0x00000001"
definition FILEXFER_ATTR_UIDGID :: uint32 where "FILEXFER_ATTR_UIDGID = 0x00000002"
definition FILEXFER_ATTR_PERMISSIONS :: uint32 where "FILEXFER_ATTR_PERMISSIONS = 0x00000004"
definition FILEXFER_ATTR_ACMODTIME :: uint32 where "FILEXFER_ATTR_ACMODTIME = 0x00000008"

lemmas FILEXFER_defs =
  FILEXFER_ATTR_SIZE_def FILEXFER_ATTR_UIDGID_def FILEXFER_ATTR_PERMISSIONS_def
  FILEXFER_ATTR_ACMODTIME_def

text \<open>The mode constants are octal in the source: 0100000 and 0040000.\<close>

definition S_IFREG :: uint32 where "S_IFREG = 0x8000"
definition S_IFDIR :: uint32 where "S_IFDIR = 0x4000"

section \<open>The codec\<close>

subsection \<open>Integers and strings\<close>

definition marshalUint32 :: "byte list \<Rightarrow> uint32 \<Rightarrow> byte list" where
  "marshalUint32 b v =
     b @ [ucast (drop_bit 24 v), ucast (drop_bit 16 v), ucast (drop_bit 8 v), ucast v]"

definition marshalUint64 :: "byte list \<Rightarrow> uint64 \<Rightarrow> byte list" where
  "marshalUint64 b v = marshalUint32 (marshalUint32 b (ucast (drop_bit 32 v))) (ucast v)"

definition marshalString :: "byte list \<Rightarrow> string \<Rightarrow> byte list" where
  "marshalString b v = marshalUint32 b (of_nat (length v)) @ bytes_of_string v"

text \<open>
  \<open>unmarshalUint32\<close> indexes \<open>b[0..3]\<close> without a check: on a shorter slice Go panics,
  which is \<open>None\<close> here.
\<close>

fun unmarshalUint32 :: "byte list \<Rightarrow> (uint32 \<times> byte list) option" where
  "unmarshalUint32 (b0 # b1 # b2 # b3 # rest) =
     Some (ucast b3 OR push_bit 8 (ucast b2) OR push_bit 16 (ucast b1) OR push_bit 24 (ucast b0),
           rest)"
| "unmarshalUint32 _ = None"

definition unmarshalUint32Safe :: "byte list \<Rightarrow> (uint32 \<times> byte list) result" where
  "unmarshalUint32Safe b =
     (if length b < 4 then Error errShortPacket
      else case unmarshalUint32 b of None \<Rightarrow> Panic | Some r \<Rightarrow> Ok r)"

definition unmarshalUint64 :: "byte list \<Rightarrow> (uint64 \<times> byte list) option" where
  "unmarshalUint64 b =
     (case unmarshalUint32 b of
        None \<Rightarrow> None
      | Some (h, b1) \<Rightarrow>
          (case unmarshalUint32 b1 of
             None \<Rightarrow> None
           | Some (l, b2) \<Rightarrow> Some (push_bit 32 (ucast h) OR ucast l, b2)))"

definition unmarshalUint64Safe :: "byte list \<Rightarrow> (uint64 \<times> byte list) result" where
  "unmarshalUint64Safe b =
     (if length b < 8 then Error errShortPacket
      else case unmarshalUint64 b of None \<Rightarrow> Panic | Some r \<Rightarrow> Ok r)"

definition unmarshalStringSafe :: "byte list \<Rightarrow> (string \<times> byte list) result" where
  "unmarshalStringSafe b =
     (case unmarshalUint32Safe b of
        Panic \<Rightarrow> Panic
      | Error e \<Rightarrow> Error e
      | Ok (n, b1) \<Rightarrow>
          if unat n > length b1 then Error errShortPacket
          else Ok (string_of_bytes (take (unat n) b1), drop (unat n) b1))"

subsection \<open>File attributes\<close>

record FileStat =
  Flags :: uint32
  Size :: uint64
  Mode :: uint32
  Mtime :: uint32
  Atime :: uint32
  UID :: uint32
  GID :: uint32
  Extended :: "(string \<times> string) list"

definition EmptyFileStat :: FileStat where
  "EmptyFileStat =
     \<lparr>Flags = 0, Size = 0, Mode = 0, Mtime = 0, Atime = 0, UID = 0, GID = 0, Extended = []\<rparr>"

definition marshalFileStat :: "byte list \<Rightarrow> FileStat \<Rightarrow> byte list" where
  "marshalFileStat b stat =
     (let b = marshalUint32 b (Flags stat);
          b = (if Flags stat AND FILEXFER_ATTR_SIZE \<noteq> 0 then marshalUint64 b (Size stat) else b);
          b = (if Flags stat AND FILEXFER_ATTR_UIDGID \<noteq> 0
               then marshalUint32 (marshalUint32 b (UID stat)) (GID stat) else b);
          b = (if Flags stat AND FILEXFER_ATTR_PERMISSIONS \<noteq> 0
               then marshalUint32 b (Mode stat) else b);
          b = (if Flags stat AND FILEXFER_ATTR_ACMODTIME \<noteq> 0
               then marshalUint32 (marshalUint32 b (Atime stat)) (Mtime stat) else b)
      in b)"

text \<open>
  \<open>unmarshalFileStatSafe\<close> writes into the \<open>FileStat\<close> it is given and returns the
  bytes it did not consume. It has a branch for UIDGID, PERMISSIONS and ACMODTIME, and
  none for SIZE.
\<close>

definition unmarshalFileStatSafe :: "byte list \<Rightarrow> FileStat \<Rightarrow> (byte list \<times> FileStat) result" where
  "unmarshalFileStatSafe b stat =
     (case unmarshalUint32Safe b of
        Panic \<Rightarrow> Panic
      | Error e \<Rightarrow> Error e
      | Ok (fl, b) \<Rightarrow>
     (let stat = stat\<lparr>Flags := fl\<rparr> in
      case (if Flags stat AND FILEXFER_ATTR_UIDGID \<noteq> 0 then
              (case unmarshalUint32Safe b of
                 Panic \<Rightarrow> Panic
               | Error e \<Rightarrow> Error e
               | Ok (u, b) \<Rightarrow>
                   (case unmarshalUint32Safe b of
                      Panic \<Rightarrow> Panic
                    | Error e \<Rightarrow> Error e
                    | Ok (g, b) \<Rightarrow> Ok (b, stat\<lparr>UID := u, GID := g\<rparr>)))
            else Ok (b, stat)) of
        Panic \<Rightarrow> Panic
      | Error e \<Rightarrow> Error e
      | Ok (b, stat) \<Rightarrow>
     (case (if Flags stat AND FILEXFER_ATTR_PERMISSIONS \<noteq> 0 then
              (case unmarshalUint32Safe b of
                 Panic \<Rightarrow> Panic
               | Error e \<Rightarrow> Error e
               | Ok (m, b) \<Rightarrow> Ok (b, stat\<lparr>Mode := m\<rparr>))
            else Ok (b, stat)) of
        Panic \<Rightarrow> Panic
      | Error e \<Rightarrow> Error e
      | Ok (b, stat) \<Rightarrow>
          (if Flags stat AND FILEXFER_ATTR_ACMODTIME \<noteq> 0 then
             (case unmarshalUint32Safe b of
                Panic \<Rightarrow> Panic
              | Error e \<Rightarrow> Error e
              | Ok (a, b) \<Rightarrow>
                  (case unmarshalUint32Safe b of
                     Panic \<Rightarrow> Panic
                   | Error e \<Rightarrow> Error e
                   | Ok (m, b) \<Rightarrow> Ok (b, stat\<lparr>Atime := a, Mtime := m\<rparr>)))
           else Ok (b, stat)))))"

subsection \<open>Packets\<close>

text \<open>
  The packet structs, one constructor each, with the fields in the order of the struct.
  The first field is the request id, except for \<open>FxpInitPacket\<close> and
  \<open>FxVersionPacket\<close>, which start with the version.
\<close>

record StatusError =
  Code :: uint32
  Msg :: string
  Lang :: string

record FxpNameAttr =
  Name :: string
  LongName :: string
  Attrs :: FileStat

datatype Packet =
    FxpInitPacket uint32 "(string \<times> string) list"
  | FxVersionPacket uint32 "(string \<times> string) list"
  | FxpOpenPacket uint32 string uint32 FileStat
  | FxpClosePacket uint32 string
  | FxpReadPacket uint32 string uint64 uint32
  | FxpWritePacket uint32 string uint64 uint32 "byte list"
  | FxpLstatPacket uint32 string
  | FxpFstatPacket uint32 string
  | FxpSetStatPacket uint32 string FileStat
  | FxpFSetStatPacket uint32 string FileStat
  | FxpOpendirPacket uint32 string
  | FxpReaddirPacket uint32 string
  | FxpRemovePacket uint32 string
  | FxpMkdirPacket uint32 string FileStat
  | FxpRmdirPacket uint32 string
  | FxpRealpathPacket uint32 string
  | FxpStatPacket uint32 string
  | FxpRenamePacket uint32 string string
  | FxpReadlinkPacket uint32 string
  | FxpSymlinkPacket uint32 string string
  | FxpStatusPacket uint32 StatusError
  | FxpHandlePacket uint32 string
  | FxpDataPacket uint32 uint32 "byte list"
  | FxpNamePacket uint32 "FxpNameAttr list"
  | FxpStatResponse uint32 FileStat

definition MakeStatus :: "uint32 \<Rightarrow> string \<Rightarrow> uint32 \<Rightarrow> Packet" where
  "MakeStatus rid msg code = FxpStatusPacket rid \<lparr>Code = code, Msg = msg, Lang = []\<rparr>"

subsection \<open>Decoding the packet bodies\<close>

text \<open>
  \<open>andThen\<close> is the chain \<open>if x, b, err = f(b); err != nil { return err }\<close> of the
  \<open>UnmarshalBinary\<close> methods: the first failure ends the decoding.
\<close>

definition andThen :: "'a result \<Rightarrow> ('a \<Rightarrow> 'b result) \<Rightarrow> 'b result" where
  "andThen r f = (case r of Panic \<Rightarrow> Panic | Error e \<Rightarrow> Error e | Ok x \<Rightarrow> f x)"

definition unmarshalExtensionPair :: "byte list \<Rightarrow> ((string \<times> string) \<times> byte list) result" where
  "unmarshalExtensionPair b =
     andThen (unmarshalStringSafe b) (\<lambda>(name, b).
     andThen (unmarshalStringSafe b) (\<lambda>(data, b).
       Ok ((name, data), b)))"

lemma unmarshalUint32Safe_shorter:
  "unmarshalUint32Safe b = Ok (v, b') \<Longrightarrow> length b' < length b"
  by (cases b rule: unmarshalUint32.cases)
     (auto simp: unmarshalUint32Safe_def split: if_splits)

lemma unmarshalStringSafe_shorter:
  "unmarshalStringSafe b = Ok (v, b') \<Longrightarrow> length b' < length b"
  by (auto simp: unmarshalStringSafe_def split: result.splits if_splits
           dest!: unmarshalUint32Safe_shorter)

lemma unmarshalExtensionPair_shorter:
  "unmarshalExtensionPair b = Ok (ep, b') \<Longrightarrow> length b' < length b"
  by (auto simp: unmarshalExtensionPair_def andThen_def split: result.splits
           dest!: unmarshalStringSafe_shorter)

text \<open>The loop \<open>for len(b) > 0\<close> of \<open>FxpInitPacket.UnmarshalBinary\<close>.\<close>

function unmarshalExtensions ::
  "byte list \<Rightarrow> (string \<times> string) list \<Rightarrow> (string \<times> string) list result" where
  "unmarshalExtensions b exts =
     (if length b > 0 then
        (case unmarshalExtensionPair b of
           Panic \<Rightarrow> Panic
         | Error e \<Rightarrow> Error e
         | Ok (ep, b') \<Rightarrow> unmarshalExtensions b' (exts @ [ep]))
      else Ok exts)"
  by pat_completeness auto
termination
  by (relation "measure (\<lambda>(b, exts). length b)")
     (auto dest: unmarshalExtensionPair_shorter)

declare unmarshalExtensions.simps [simp del]

definition unmarshalInit :: "byte list \<Rightarrow> Packet result" where
  "unmarshalInit b =
     andThen (unmarshalUint32Safe b) (\<lambda>(version, b).
     andThen (unmarshalExtensions b []) (\<lambda>exts.
       Ok (FxpInitPacket version exts)))"

text \<open>\<open>unmarshalIDString\<close> fills an id and a string; the caller's struct takes them.\<close>

definition unmarshalIDString :: "byte list \<Rightarrow> (uint32 \<times> string) result" where
  "unmarshalIDString b =
     andThen (unmarshalUint32Safe b) (\<lambda>(rid, b).
     andThen (unmarshalStringSafe b) (\<lambda>(str, b).
       Ok (rid, str)))"

definition unmarshalIDStringString :: "byte list \<Rightarrow> (uint32 \<times> string \<times> string) result" where
  "unmarshalIDStringString b =
     andThen (unmarshalUint32Safe b) (\<lambda>(rid, b).
     andThen (unmarshalStringSafe b) (\<lambda>(s1, b).
     andThen (unmarshalStringSafe b) (\<lambda>(s2, b).
       Ok (rid, s1, s2))))"

definition unmarshalIDStringAttrs :: "byte list \<Rightarrow> (uint32 \<times> string \<times> FileStat) result" where
  "unmarshalIDStringAttrs b =
     andThen (unmarshalUint32Safe b) (\<lambda>(rid, b).
     andThen (unmarshalStringSafe b) (\<lambda>(str, b).
     andThen (unmarshalFileStatSafe b EmptyFileStat) (\<lambda>(b, attrs).
       Ok (rid, str, attrs))))"

definition unmarshalOpen :: "byte list \<Rightarrow> Packet result" where
  "unmarshalOpen b =
     andThen (unmarshalUint32Safe b) (\<lambda>(rid, b).
     andThen (unmarshalStringSafe b) (\<lambda>(path, b).
     andThen (unmarshalUint32Safe b) (\<lambda>(pflags, b).
     andThen (unmarshalFileStatSafe b EmptyFileStat) (\<lambda>(b, attrs).
       Ok (FxpOpenPacket rid path pflags attrs)))))"

definition unmarshalRead :: "byte list \<Rightarrow> Packet result" where
  "unmarshalRead b =
     andThen (unmarshalUint32Safe b) (\<lambda>(rid, b).
     andThen (unmarshalStringSafe b) (\<lambda>(h, b).
     andThen (unmarshalUint64Safe b) (\<lambda>(off, b).
     andThen (unmarshalUint32Safe b) (\<lambda>(len, b).
       Ok (FxpReadPacket rid h off len)))))"

text \<open>
  The length check of \<open>FxpWritePacket.UnmarshalBinary\<close> compares \<open>uint32(len(b))\<close>
  with the length field; a body is at most 1 MiB, so the conversion does not wrap.
\<close>

definition unmarshalWrite :: "byte list \<Rightarrow> Packet result" where
  "unmarshalWrite b =
     andThen (unmarshalUint32Safe b) (\<lambda>(rid, b).
     andThen (unmarshalStringSafe b) (\<lambda>(h, b).
     andThen (unmarshalUint64Safe b) (\<lambda>(off, b).
     andThen (unmarshalUint32Safe b) (\<lambda>(len, b).
       if (of_nat (length b) :: uint32) < len then Error errShortPacket
       else if length b < unat len then Panic
       else Ok (FxpWritePacket rid h off len (take (unat len) b))))))"

definition UnmarshalBinary :: "byte \<Rightarrow> byte list \<Rightarrow> Packet result" where
  "UnmarshalBinary pktType b =
     (if pktType = FXP_INIT then unmarshalInit b
      else if pktType = FXP_LSTAT then
        andThen (unmarshalIDString b) (\<lambda>(rid, s). Ok (FxpLstatPacket rid s))
      else if pktType = FXP_OPEN then unmarshalOpen b
      else if pktType = FXP_CLOSE then
        andThen (unmarshalIDString b) (\<lambda>(rid, s). Ok (FxpClosePacket rid s))
      else if pktType = FXP_READ then unmarshalRead b
      else if pktType = FXP_WRITE then unmarshalWrite b
      else if pktType = FXP_FSTAT then
        andThen (unmarshalIDString b) (\<lambda>(rid, s). Ok (FxpFstatPacket rid s))
      else if pktType = FXP_SETSTAT then
        andThen (unmarshalIDStringAttrs b) (\<lambda>(rid, s, a). Ok (FxpSetStatPacket rid s a))
      else if pktType = FXP_FSETSTAT then
        andThen (unmarshalIDStringAttrs b) (\<lambda>(rid, s, a). Ok (FxpFSetStatPacket rid s a))
      else if pktType = FXP_OPENDIR then
        andThen (unmarshalIDString b) (\<lambda>(rid, s). Ok (FxpOpendirPacket rid s))
      else if pktType = FXP_READDIR then
        andThen (unmarshalIDString b) (\<lambda>(rid, s). Ok (FxpReaddirPacket rid s))
      else if pktType = FXP_REMOVE then
        andThen (unmarshalIDString b) (\<lambda>(rid, s). Ok (FxpRemovePacket rid s))
      else if pktType = FXP_MKDIR then
        andThen (unmarshalIDStringAttrs b) (\<lambda>(rid, s, a). Ok (FxpMkdirPacket rid s a))
      else if pktType = FXP_RMDIR then
        andThen (unmarshalIDString b) (\<lambda>(rid, s). Ok (FxpRmdirPacket rid s))
      else if pktType = FXP_REALPATH then
        andThen (unmarshalIDString b) (\<lambda>(rid, s). Ok (FxpRealpathPacket rid s))
      else if pktType = FXP_STAT then
        andThen (unmarshalIDString b) (\<lambda>(rid, s). Ok (FxpStatPacket rid s))
      else if pktType = FXP_RENAME then
        andThen (unmarshalIDStringString b) (\<lambda>(rid, s1, s2). Ok (FxpRenamePacket rid s1 s2))
      else if pktType = FXP_READLINK then
        andThen (unmarshalIDString b) (\<lambda>(rid, s). Ok (FxpReadlinkPacket rid s))
      else if pktType = FXP_SYMLINK then
        andThen (unmarshalIDStringString b) (\<lambda>(rid, s1, s2). Ok (FxpSymlinkPacket rid s1 s2))
      else Error (ErrUnhandledPacketType pktType))"

subsection \<open>Framing\<close>

text \<open>
  The reader \<open>r\<close> is the sequence of bytes still to come on the stream. \<open>io.ReadFull\<close>
  takes \<open>n\<close> of them, or fails: with \<open>io.EOF\<close> when none is left, with
  \<open>io.ErrUnexpectedEOF\<close> when fewer than \<open>n\<close> are.
\<close>

definition ReadFull :: "byte list \<Rightarrow> nat \<Rightarrow> (byte list \<times> byte list) result" where
  "ReadFull r n =
     (if n \<le> length r then Ok (take n r, drop n r)
      else if r = [] then Error EOF
      else Error ErrUnexpectedEOF)"

text \<open>\<open>ReadPacket\<close> returns the packet and the rest of the stream.\<close>

definition ReadPacket :: "byte list \<Rightarrow> (Packet \<times> byte list) result" where
  "ReadPacket r =
     (case ReadFull r 4 of
        Panic \<Rightarrow> Panic
      | Error e \<Rightarrow> Error e
      | Ok (b, r) \<Rightarrow>
     (case unmarshalUint32 b of
        None \<Rightarrow> Panic
      | Some (l, _) \<Rightarrow>
          if l > 1024 * 1024 then Error ErrPacketTooLarge
          else if l \<le> 1 then Error ErrPacketTooSmall
          else
            (case ReadFull r (unat l) of
               Panic \<Rightarrow> Panic
             | Error e \<Rightarrow> Error e
             | Ok (b, r) \<Rightarrow>
            (case b of
               [] \<Rightarrow> Panic
             | pktType # body \<Rightarrow>
                 andThen (UnmarshalBinary pktType body) (\<lambda>pkt. Ok (pkt, r))))))"

section \<open>The VFS contract\<close>

text \<open>
  \<open>os.FileMode\<close> is a \<open>uint32\<close>. An \<open>os.FileInfo\<close> is an interface; the session reads
  its name, size, mode, modification time (as Unix seconds) and directory flag.
\<close>

type_synonym FileMode = uint32

record FileInfo =
  Info_Name :: string
  Info_Size :: int64
  Info_Mode :: FileMode
  Info_ModTime :: int64
  Info_IsDir :: bool

text \<open>
  The backend is outside the program. Its state is the \<open>world\<close>: the sequence of calls
  made to it so far. A backend behaviour (\<open>Backend\<close>) answers each call from the calls
  before it, so one behaviour can stand for any deterministic backend, and the world
  records which methods were invoked, with which arguments, in which order. A file
  object is named by the position of the call that opened it.
\<close>

datatype call =
    CallChmod string FileMode
  | CallOpen string
  | CallOpenFile string int FileMode
  | CallMkdir string FileMode
  | CallStat string
  | CallRename string string
  | CallRemove string
  | CallClose
  | CallFileChmod nat FileMode
  | CallFileRead nat nat
  | CallFileReadAt nat nat int64
  | CallFileReaddir nat int
  | CallFileReaddirnames nat int
  | CallFileWrite nat "byte list"
  | CallFileWriteAt nat "byte list" int64
  | CallFileStat nat
  | CallFileClose nat

type_synonym world = "call list"

text \<open>
  The interfaces \<open>File\<close> and \<open>VFS\<close>: a method takes its arguments and the world, and
  returns its results and the new world. A Go result \<open>(x, err)\<close> whose \<open>x\<close> the callers
  read only when \<open>err\<close> is nil is a sum; \<open>(n, err)\<close> of a read or write is a pair, since
  both are read. A read returns the bytes it stored at the front of the buffer.
\<close>

record File =
  File_Name :: string
  File_Chmod :: "FileMode \<Rightarrow> world \<Rightarrow> error option \<times> world"
  File_Read :: "nat \<Rightarrow> world \<Rightarrow> (byte list \<times> int \<times> error option) \<times> world"
  File_ReadAt :: "nat \<Rightarrow> int64 \<Rightarrow> world \<Rightarrow> (byte list \<times> int \<times> error option) \<times> world"
  File_Readdir :: "int \<Rightarrow> world \<Rightarrow> (error + FileInfo list) \<times> world"
  File_Readdirnames :: "int \<Rightarrow> world \<Rightarrow> (error + string list) \<times> world"
  File_Write :: "byte list \<Rightarrow> world \<Rightarrow> (int \<times> error option) \<times> world"
  File_WriteAt :: "byte list \<Rightarrow> int64 \<Rightarrow> world \<Rightarrow> (int \<times> error option) \<times> world"
  File_Stat :: "world \<Rightarrow> (error + FileInfo) \<times> world"
  File_Close :: "world \<Rightarrow> error option \<times> world"

record VFS =
  Chmod :: "string \<Rightarrow> FileMode \<Rightarrow> world \<Rightarrow> error option \<times> world"
  Open :: "string \<Rightarrow> world \<Rightarrow> (error + File) \<times> world"
  OpenFile :: "string \<Rightarrow> int \<Rightarrow> FileMode \<Rightarrow> world \<Rightarrow> (error + File) \<times> world"
  Mkdir :: "string \<Rightarrow> FileMode \<Rightarrow> world \<Rightarrow> error option \<times> world"
  Stat :: "string \<Rightarrow> world \<Rightarrow> (error + FileInfo) \<times> world"
  Rename :: "string \<Rightarrow> string \<Rightarrow> world \<Rightarrow> error option \<times> world"
  Remove :: "string \<Rightarrow> world \<Rightarrow> error option \<times> world"
  Close :: "world \<Rightarrow> error option \<times> world"

record Backend =
  on_Chmod :: "world \<Rightarrow> string \<Rightarrow> FileMode \<Rightarrow> error option"
  on_Open :: "world \<Rightarrow> string \<Rightarrow> error option"
  on_OpenFile :: "world \<Rightarrow> string \<Rightarrow> int \<Rightarrow> FileMode \<Rightarrow> error option"
  on_Mkdir :: "world \<Rightarrow> string \<Rightarrow> FileMode \<Rightarrow> error option"
  on_Stat :: "world \<Rightarrow> string \<Rightarrow> error + FileInfo"
  on_Rename :: "world \<Rightarrow> string \<Rightarrow> string \<Rightarrow> error option"
  on_Remove :: "world \<Rightarrow> string \<Rightarrow> error option"
  on_Close :: "world \<Rightarrow> error option"
  on_FileName :: "nat \<Rightarrow> string"
  on_FileChmod :: "world \<Rightarrow> nat \<Rightarrow> FileMode \<Rightarrow> error option"
  on_FileRead :: "world \<Rightarrow> nat \<Rightarrow> nat \<Rightarrow> byte list \<times> int \<times> error option"
  on_FileReadAt :: "world \<Rightarrow> nat \<Rightarrow> nat \<Rightarrow> int64 \<Rightarrow> byte list \<times> int \<times> error option"
  on_FileReaddir :: "world \<Rightarrow> nat \<Rightarrow> int \<Rightarrow> error + FileInfo list"
  on_FileReaddirnames :: "world \<Rightarrow> nat \<Rightarrow> int \<Rightarrow> error + string list"
  on_FileWrite :: "world \<Rightarrow> nat \<Rightarrow> byte list \<Rightarrow> int \<times> error option"
  on_FileWriteAt :: "world \<Rightarrow> nat \<Rightarrow> byte list \<Rightarrow> int64 \<Rightarrow> int \<times> error option"
  on_FileStat :: "world \<Rightarrow> nat \<Rightarrow> error + FileInfo"
  on_FileClose :: "world \<Rightarrow> nat \<Rightarrow> error option"

text \<open>The file object and the VFS of a backend: each method answers and records its call.\<close>

definition backendFile :: "Backend \<Rightarrow> nat \<Rightarrow> File" where
  "backendFile B fid =
     \<lparr>File_Name = on_FileName B fid,
      File_Chmod = (\<lambda>mode w. (on_FileChmod B w fid mode, w @ [CallFileChmod fid mode])),
      File_Read = (\<lambda>n w. (on_FileRead B w fid n, w @ [CallFileRead fid n])),
      File_ReadAt = (\<lambda>n off w. (on_FileReadAt B w fid n off, w @ [CallFileReadAt fid n off])),
      File_Readdir = (\<lambda>n w. (on_FileReaddir B w fid n, w @ [CallFileReaddir fid n])),
      File_Readdirnames =
        (\<lambda>n w. (on_FileReaddirnames B w fid n, w @ [CallFileReaddirnames fid n])),
      File_Write = (\<lambda>buf w. (on_FileWrite B w fid buf, w @ [CallFileWrite fid buf])),
      File_WriteAt =
        (\<lambda>buf off w. (on_FileWriteAt B w fid buf off, w @ [CallFileWriteAt fid buf off])),
      File_Stat = (\<lambda>w. (on_FileStat B w fid, w @ [CallFileStat fid])),
      File_Close = (\<lambda>w. (on_FileClose B w fid, w @ [CallFileClose fid]))\<rparr>"

definition backendVFS :: "Backend \<Rightarrow> VFS" where
  "backendVFS B =
     \<lparr>Chmod = (\<lambda>name mode w. (on_Chmod B w name mode, w @ [CallChmod name mode])),
      Open = (\<lambda>path w.
        (case on_Open B w path of
           Some err \<Rightarrow> Inl err
         | None \<Rightarrow> Inr (backendFile B (length w)),
         w @ [CallOpen path])),
      OpenFile = (\<lambda>name flag perm w.
        (case on_OpenFile B w name flag perm of
           Some err \<Rightarrow> Inl err
         | None \<Rightarrow> Inr (backendFile B (length w)),
         w @ [CallOpenFile name flag perm])),
      Mkdir = (\<lambda>path perm w. (on_Mkdir B w path perm, w @ [CallMkdir path perm])),
      Stat = (\<lambda>path w. (on_Stat B w path, w @ [CallStat path])),
      Rename = (\<lambda>from to w. (on_Rename B w from to, w @ [CallRename from to])),
      Remove = (\<lambda>path w. (on_Remove B w path, w @ [CallRemove path])),
      Close = (\<lambda>w. (on_Close B w, w @ [CallClose]))\<rparr>"

subsection \<open>The read-only wrapper\<close>

text \<open>The \<open>os.O_*\<close> flags, with their values on Linux.\<close>

definition O_RDONLY :: int where "O_RDONLY = 0x0"
definition O_WRONLY :: int where "O_WRONLY = 0x1"
definition O_RDWR :: int where "O_RDWR = 0x2"
definition O_CREATE :: int where "O_CREATE = 0x40"
definition O_EXCL :: int where "O_EXCL = 0x80"
definition O_TRUNC :: int where "O_TRUNC = 0x200"
definition O_APPEND :: int where "O_APPEND = 0x400"

lemmas O_defs =
  O_RDONLY_def O_WRONLY_def O_RDWR_def O_CREATE_def O_EXCL_def O_TRUNC_def O_APPEND_def

definition ReadOnlyFile :: "File \<Rightarrow> File" where
  "ReadOnlyFile F =
     \<lparr>File_Name = File_Name F,
      File_Chmod = (\<lambda>mode w. (Some ErrPermission, w)),
      File_Read = (\<lambda>n w. File_Read F n w),
      File_ReadAt = (\<lambda>n off w. File_ReadAt F n off w),
      File_Readdir = (\<lambda>n w. File_Readdir F n w),
      File_Readdirnames = (\<lambda>n w. File_Readdirnames F n w),
      File_Write = (\<lambda>buf w. ((0, Some ErrPermission), w)),
      File_WriteAt = (\<lambda>buf off w. ((0, Some ErrPermission), w)),
      File_Stat = (\<lambda>w. File_Stat F w),
      File_Close = (\<lambda>w. File_Close F w)\<rparr>"

definition writeAttempt :: "int \<Rightarrow> bool" where
  "writeAttempt flag =
     (if flag AND O_WRONLY = 0 then
        (if flag AND O_RDWR = 0 then
           (if flag AND 3 = O_RDONLY then
              (if flag AND (O_CREATE OR O_TRUNC OR O_APPEND) = 0 then False else True)
            else True)
         else True)
      else True)"

definition ReadOnlyVFS :: "VFS \<Rightarrow> VFS" where
  "ReadOnlyVFS Fs =
     \<lparr>Chmod = (\<lambda>name mode w. (Some ErrPermission, w)),
      Open = (\<lambda>path w.
        (case Open Fs path w of
           (Inl err, w') \<Rightarrow> (Inl err, w')
         | (Inr f, w') \<Rightarrow> (Inr (ReadOnlyFile f), w'))),
      OpenFile = (\<lambda>name flag perm w.
        if writeAttempt flag then (Inl ErrPermission, w)
        else
          (case OpenFile Fs name flag perm w of
             (Inl err, w') \<Rightarrow> (Inl err, w')
           | (Inr f, w') \<Rightarrow> (Inr (ReadOnlyFile f), w'))),
      Mkdir = (\<lambda>path perm w. (Some ErrPermission, w)),
      Stat = (\<lambda>path w. Stat Fs path w),
      Rename = (\<lambda>from to w. (Some ErrPermission, w)),
      Remove = (\<lambda>path w. (Some ErrPermission, w)),
      Close = (\<lambda>w. Close Fs w)\<rparr>"

section \<open>The session\<close>

subsection \<open>Errors and their messages\<close>

text \<open>
  \<open>os.IsPermission\<close> and \<open>err.Error()\<close> belong to Go's library. \<open>os.IsPermission\<close>
  unwraps one \<open>*os.PathError\<close> and accepts \<open>os.ErrPermission\<close> and the error numbers
  \<open>EPERM\<close> (1) and \<open>EACCES\<close> (13). The table of \<open>syscall.Errno\<close> messages is given for
  the numbers 1, 2 and 13 only.
\<close>

fun underlyingError :: "error \<Rightarrow> error" where
  "underlyingError (PathError op path err) = err"
| "underlyingError err = err"

definition IsPermission :: "error \<Rightarrow> bool" where
  "IsPermission err =
     (let u = underlyingError err in u = ErrPermission \<or> u = Errno 1 \<or> u = Errno 13)"

definition digitChar :: "nat \<Rightarrow> char" where
  "digitChar d = ''0123456789'' ! d"

function showNat :: "nat \<Rightarrow> string" where
  "showNat n = (if n < 10 then [digitChar n] else showNat (n div 10) @ [digitChar (n mod 10)])"
  by pat_completeness auto
termination
  by (relation "measure (\<lambda>n. n)") auto

declare showNat.simps [simp del]

text \<open>\<open>fmt.Sprintf("%d", i)\<close>: the decimal digits, after a minus sign when \<open>i\<close> is negative.\<close>

definition Sprintf_d :: "int \<Rightarrow> string" where
  "Sprintf_d i = (if i < 0 then CHR ''-'' # showNat (nat (- i)) else showNat (nat i))"

definition fxp_String :: "byte \<Rightarrow> string" where
  "fxp_String f =
     (case map_of
        [(1, ''FXP_INIT''), (2, ''FXP_VERSION''), (3, ''FXP_OPEN''), (4, ''FXP_CLOSE''),
         (5, ''FXP_READ''), (6, ''FXP_WRITE''), (7, ''FXP_LSTAT''), (8, ''FXP_FSTAT''),
         (9, ''FXP_SETSTAT''), (10, ''FXP_FSETSTAT''), (11, ''FXP_OPENDIR''),
         (12, ''FXP_READDIR''), (13, ''FXP_REMOVE''), (14, ''FXP_MKDIR''), (15, ''FXP_RMDIR''),
         (16, ''FXP_REALPATH''), (17, ''FXP_STAT''), (18, ''FXP_RENAME''),
         (19, ''FXP_READLINK''), (20, ''FXP_SYMLINK''), (101, ''FXP_STATUS''),
         (102, ''FXP_HANDLE''), (103, ''FXP_DATA''), (104, ''FXP_NAME''), (105, ''FXP_ATTRS''),
         (200, ''FXP_EXTENDED''), (201, ''FXP_EXTENDED_REPLY'')] f of
        Some name \<Rightarrow> name
      | None \<Rightarrow> ''unknown'')"

fun Error_string :: "error \<Rightarrow> string" where
  "Error_string EOF = ''EOF''"
| "Error_string ErrUnexpectedEOF = ''unexpected EOF''"
| "Error_string ErrNotExist = ''file does not exist''"
| "Error_string ErrPermission = ''permission denied''"
| "Error_string ErrInvalidHandle = ''invalid handle''"
| "Error_string ErrUnsupported = ''unsupported operation''"
| "Error_string ErrBadRead = ''bad read''"
| "Error_string ErrTooManyOpenFiles = ''too many open files''"
| "Error_string errShortPacket = ''packet too short''"
| "Error_string ErrPacketTooLarge = ''packet too large''"
| "Error_string ErrPacketTooSmall = ''packet too small''"
| "Error_string (ErrUnhandledPacketType t) = ''unhandled packet type: '' @ fxp_String t"
| "Error_string (Errno n) =
     (if n = 1 then ''operation not permitted''
      else if n = 2 then ''no such file or directory''
      else if n = 13 then ''permission denied''
      else ''errno '' @ showNat n)"
| "Error_string (PathError op path err) = op @ '' '' @ path @ '': '' @ Error_string err"
| "Error_string (OtherError msg) = msg"

subsection \<open>The session state\<close>

text \<open>
  \<open>Session\<close> has the fields of the Go struct that carry data: the options, the VFS, the
  handle table, the inbox (the packets the reader has decoded and the dispatcher has not
  taken yet), the outbox (the responses handed to the writer, in order), the closed
  signal and the handle counter. The handle table is a list of entries with distinct
  keys; \<open>length\<close> is Go's \<open>len\<close>. Logging changes nothing and is left out.

  The other fields hold what the Go program keeps outside the struct: the world of the
  backend; one entry per handle goroutine, with the file it serves, the packets sent on
  its channel and not received yet, and whether it has returned; whether the dispatcher
  goroutine has returned; whether a panic has ended the process; and the two library
  functions the session calls whose results depend on the calendar and the clock or on
  Go's \<open>path\<close> package. A handle's \<open>reqChan\<close> is the position of its goroutine.
\<close>

record Options =
  Debug :: bool
  MaxFiles :: int

record handle =
  Id :: string
  reqChan :: nat

record worker =
  served :: File
  pending :: "Packet list"
  exited :: bool

record Library =
  path_Clean :: "string \<Rightarrow> string"
  runLsStat :: "FileInfo \<Rightarrow> string"

record Session =
  Options :: Options
  fs :: VFS
  files :: "(string \<times> handle) list"
  inbox :: "Packet list"
  outbox :: "Packet list"
  closed :: bool
  fcounter :: int64
  world :: world
  workers :: "worker list"
  dispatcher_exited :: bool
  crashed :: bool
  lib :: Library

text \<open>
  \<open>Respond\<close> selects between the closed signal and the outbox: an open session takes the
  response, a closed one drops it.
\<close>

definition Respond :: "Packet \<Rightarrow> Session \<Rightarrow> Session" where
  "Respond resp s = (if closed s then s else s\<lparr>outbox := outbox s @ [resp]\<rparr>)"

definition respondError :: "uint32 \<Rightarrow> error \<Rightarrow> Session \<Rightarrow> Session" where
  "respondError respId err s =
     (let (code, msg) =
        (if err = EOF then (FX_EOF, Error_string err)
         else if err = ErrNotExist then (FX_NO_SUCH_FILE, Error_string err)
         else if IsPermission err then (FX_PERMISSION_DENIED, Error_string err)
         else if err = ErrUnsupported then (FX_OP_UNSUPPORTED, Error_string err)
         else (FX_FAILURE, ''error''))
      in Respond (MakeStatus respId msg code) s)"

definition respondOk :: "uint32 \<Rightarrow> Session \<Rightarrow> Session" where
  "respondOk respId s = Respond (MakeStatus respId [] FX_OK) s"

text \<open>A call of a VFS or file method from the session: the world moves on.\<close>

definition call :: "(world \<Rightarrow> 'a \<times> world) \<Rightarrow> Session \<Rightarrow> 'a \<times> Session" where
  "call m s = (case m (world s) of (r, w) \<Rightarrow> (r, s\<lparr>world := w\<rparr>))"

text \<open>
  \<open>newFileHandle\<close> formats the counter, increments it (an \<open>int64\<close>, which wraps) and starts
  the goroutine of the handle.
\<close>

definition newFileHandle :: "File \<Rightarrow> Session \<Rightarrow> handle \<times> Session" where
  "newFileHandle f s =
     (let h = \<lparr>Id = Sprintf_d (sint (fcounter s)), reqChan = length (workers s)\<rparr>
      in (h, s\<lparr>fcounter := fcounter s + 1,
               workers := workers s @ [\<lparr>served = f, pending = [], exited = False\<rparr>]\<rparr>))"

text \<open>\<open>h.reqChan <- req\<close>.\<close>

definition send :: "handle \<Rightarrow> Packet \<Rightarrow> Session \<Rightarrow> Session" where
  "send h req s =
     (if reqChan h < length (workers s) then
        s\<lparr>workers := (workers s)[reqChan h :=
             (workers s ! reqChan h)\<lparr>pending := pending (workers s ! reqChan h) @ [req]\<rparr>]\<rparr>
      else s)"

definition fileStatToSFTPStat :: "FileInfo \<Rightarrow> FileStat" where
  "fileStatToSFTPStat stat =
     (let mode = Info_Mode stat AND 0x1FF;
          mode = (if Info_IsDir stat then mode OR S_IFDIR else mode OR S_IFREG)
      in \<lparr>Flags = FILEXFER_ATTR_SIZE OR FILEXFER_ATTR_PERMISSIONS OR FILEXFER_ATTR_ACMODTIME,
          Size = Info_Size stat,
          Mode = mode,
          Mtime = ucast (Info_ModTime stat),
          Atime = ucast (Info_ModTime stat),
          UID = 0, GID = 0, Extended = []\<rparr>)"

subsection \<open>The handlers of the dispatcher\<close>

definition handleInit :: "Session \<Rightarrow> Session" where
  "handleInit s = Respond (FxVersionPacket 3 []) s"

definition handleRealPath :: "uint32 \<Rightarrow> string \<Rightarrow> Session \<Rightarrow> Session" where
  "handleRealPath rid path s =
     (let p = (if take 1 path = ''/'' then path else ''/'' @ path);
          p = path_Clean (lib s) p
      in Respond (FxpNamePacket rid [\<lparr>Name = p, LongName = p, Attrs = EmptyFileStat\<rparr>]) s)"

definition handleRemove :: "uint32 \<Rightarrow> string \<Rightarrow> Session \<Rightarrow> Session" where
  "handleRemove rid filename s =
     (case call (Stat (fs s) filename) s of
        (Inl err, s) \<Rightarrow> respondError rid err s
      | (Inr st, s) \<Rightarrow>
          if Info_IsDir st then respondError rid ErrUnsupported s
          else
            (case call (Remove (fs s) filename) s of
               (Some err, s) \<Rightarrow> respondError rid err s
             | (None, s) \<Rightarrow> respondOk rid s))"

definition handleRmdir :: "uint32 \<Rightarrow> string \<Rightarrow> Session \<Rightarrow> Session" where
  "handleRmdir rid path s =
     (case call (Stat (fs s) path) s of
        (Inl err, s) \<Rightarrow> respondError rid err s
      | (Inr st, s) \<Rightarrow>
          if \<not> Info_IsDir st then respondError rid ErrUnsupported s
          else
            (case call (Remove (fs s) path) s of
               (Some err, s) \<Rightarrow> respondError rid err s
             | (None, s) \<Rightarrow> respondOk rid s))"

definition handleFstat :: "uint32 \<Rightarrow> string \<Rightarrow> Session \<Rightarrow> Session" where
  "handleFstat rid hid s =
     (case map_of (files s) hid of
        None \<Rightarrow> respondError rid ErrInvalidHandle s
      | Some h \<Rightarrow> send h (FxpFstatPacket rid hid) s)"

definition handleStat :: "uint32 \<Rightarrow> string \<Rightarrow> Session \<Rightarrow> Session" where
  "handleStat rid path s =
     (case call (Stat (fs s) path) s of
        (Inl err, s) \<Rightarrow> respondError rid err s
      | (Inr st, s) \<Rightarrow> Respond (FxpStatResponse rid (fileStatToSFTPStat st)) s)"

definition handleSetStat :: "uint32 \<Rightarrow> string \<Rightarrow> FileStat \<Rightarrow> Session \<Rightarrow> Session" where
  "handleSetStat rid path attrs s =
     (case (if Flags attrs AND FILEXFER_ATTR_PERMISSIONS \<noteq> 0
            then call (Chmod (fs s) path (Mode attrs)) s else (None, s)) of
        (Some err, s) \<Rightarrow> respondError rid err s
      | (None, s) \<Rightarrow>
          if Flags attrs AND FILEXFER_ATTR_SIZE \<noteq> 0 then respondError rid ErrUnsupported s
          else if Flags attrs AND FILEXFER_ATTR_ACMODTIME \<noteq> 0
          then respondError rid ErrUnsupported s
          else respondOk rid s)"

definition handleLstat :: "uint32 \<Rightarrow> string \<Rightarrow> Session \<Rightarrow> Session" where
  "handleLstat rid path s =
     (case call (Stat (fs s) path) s of
        (Inl err, s) \<Rightarrow> respondError rid err s
      | (Inr st, s) \<Rightarrow> Respond (FxpStatResponse rid (fileStatToSFTPStat st)) s)"

definition handleReadDir :: "uint32 \<Rightarrow> string \<Rightarrow> Session \<Rightarrow> Session" where
  "handleReadDir rid hid s =
     (case map_of (files s) hid of
        None \<Rightarrow> respondError rid ErrInvalidHandle s
      | Some h \<Rightarrow> send h (FxpReaddirPacket rid hid) s)"

definition handleClose :: "uint32 \<Rightarrow> string \<Rightarrow> Session \<Rightarrow> Session" where
  "handleClose rid hid s =
     (case map_of (files s) hid of
        None \<Rightarrow> respondError rid ErrInvalidHandle s
      | Some h \<Rightarrow>
          send h (FxpClosePacket rid hid) (s\<lparr>files := AList.delete hid (files s)\<rparr>))"

text \<open>The translation of the open flags in \<open>handleOpen\<close>: the VFS flags and the bits left.\<close>

definition openFlags :: "uint32 \<Rightarrow> int \<times> uint32" where
  "openFlags pflags =
     (let (flags, pflags) =
            (if pflags AND FXF_READ \<noteq> 0 \<and> pflags AND FXF_WRITE \<noteq> 0
             then (O_RDWR, pflags AND NOT (FXF_READ OR FXF_WRITE))
             else if pflags AND FXF_READ \<noteq> 0 then (O_RDONLY, pflags AND NOT FXF_READ)
             else if pflags AND FXF_WRITE \<noteq> 0 then (O_WRONLY, pflags AND NOT FXF_WRITE)
             else (0, pflags));
          (flags, pflags) =
            (if pflags AND FXF_TRUNC \<noteq> 0 then (flags OR O_TRUNC, pflags AND NOT FXF_TRUNC)
             else (flags, pflags));
          (flags, pflags) =
            (if pflags AND FXF_CREAT \<noteq> 0 then (flags OR O_CREATE, pflags AND NOT FXF_CREAT)
             else (flags, pflags));
          (flags, pflags) =
            (if pflags AND FXF_APPEND \<noteq> 0 then (flags OR O_APPEND, pflags AND NOT FXF_APPEND)
             else (flags, pflags));
          (flags, pflags) =
            (if pflags AND FXF_EXCL \<noteq> 0 then (flags OR O_EXCL, pflags AND NOT FXF_EXCL)
             else (flags, pflags))
      in (flags, pflags))"

definition handleOpen :: "uint32 \<Rightarrow> string \<Rightarrow> uint32 \<Rightarrow> FileStat \<Rightarrow> Session \<Rightarrow> Session" where
  "handleOpen rid path pflags attrs s =
     (if int (length (files s)) > MaxFiles (Options s)
      then respondError rid ErrTooManyOpenFiles s
      else
        (case openFlags pflags of
           (flags, pflags) \<Rightarrow>
             if pflags \<noteq> 0 then respondError rid ErrUnsupported s
             else
               (let mode = (if Flags attrs AND FILEXFER_ATTR_PERMISSIONS \<noteq> 0
                            then Mode attrs AND 0x1FF else 0x1ED)
                in case call (OpenFile (fs s) path flags mode) s of
                     (Inl err, s) \<Rightarrow> respondError rid err s
                   | (Inr f, s) \<Rightarrow>
                       (case newFileHandle f s of
                          (h, s) \<Rightarrow>
                            Respond (FxpHandlePacket rid (Id h))
                              (s\<lparr>files := AList.update (Id h) h (files s)\<rparr>)))))"

definition handleMkdir :: "uint32 \<Rightarrow> string \<Rightarrow> FileStat \<Rightarrow> Session \<Rightarrow> Session" where
  "handleMkdir rid path attrs s =
     (let mode = (if Flags attrs AND FILEXFER_ATTR_PERMISSIONS \<noteq> 0
                  then Mode attrs AND 0x1FF else 0x1ED)
      in case call (Mkdir (fs s) path mode) s of
           (Some err, s) \<Rightarrow> respondError rid err s
         | (None, s) \<Rightarrow> respondOk rid s)"

definition handleOpenDir :: "uint32 \<Rightarrow> string \<Rightarrow> Session \<Rightarrow> Session" where
  "handleOpenDir rid path s =
     (if int (length (files s)) > MaxFiles (Options s)
      then respondError rid ErrTooManyOpenFiles s
      else
        (case call (Open (fs s) path) s of
           (Inl err, s) \<Rightarrow> respondError rid err s
         | (Inr f, s) \<Rightarrow>
             (case newFileHandle f s of
                (h, s) \<Rightarrow>
                  Respond (FxpHandlePacket rid (Id h))
                    (s\<lparr>files := AList.update (Id h) h (files s)\<rparr>))))"

definition handleWrite ::
  "uint32 \<Rightarrow> string \<Rightarrow> uint64 \<Rightarrow> uint32 \<Rightarrow> byte list \<Rightarrow> Session \<Rightarrow> Session" where
  "handleWrite rid hid off len data s =
     (case map_of (files s) hid of
        None \<Rightarrow> respondError rid ErrInvalidHandle s
      | Some h \<Rightarrow> send h (FxpWritePacket rid hid off len data) s)"

definition handleRead :: "uint32 \<Rightarrow> string \<Rightarrow> uint64 \<Rightarrow> uint32 \<Rightarrow> Session \<Rightarrow> Session" where
  "handleRead rid hid off len s =
     (case map_of (files s) hid of
        None \<Rightarrow> respondError rid ErrInvalidHandle s
      | Some h \<Rightarrow> send h (FxpReadPacket rid hid off len) s)"

definition handleRename :: "uint32 \<Rightarrow> string \<Rightarrow> string \<Rightarrow> Session \<Rightarrow> Session" where
  "handleRename rid oldpath newpath s =
     (case call (Rename (fs s) oldpath newpath) s of
        (Some err, s) \<Rightarrow> respondError rid err s
      | (None, s) \<Rightarrow> respondOk rid s)"

definition handleReadLink :: "uint32 \<Rightarrow> Session \<Rightarrow> Session" where
  "handleReadLink rid s = respondError rid ErrUnsupported s"

definition handleSymlink :: "uint32 \<Rightarrow> Session \<Rightarrow> Session" where
  "handleSymlink rid s = respondError rid ErrUnsupported s"

text \<open>
  The type switch of the dispatcher goroutine. A packet with no case reaches
  \<open>default\<close>: the goroutine returns, and its deferred \<open>shutdown\<close> closes the session.
\<close>

fun dispatch :: "Packet \<Rightarrow> Session \<Rightarrow> Session" where
  "dispatch (FxpClosePacket rid hid) s = handleClose rid hid s"
| "dispatch (FxpFstatPacket rid hid) s = handleFstat rid hid s"
| "dispatch (FxpInitPacket version exts) s = handleInit s"
| "dispatch (FxpLstatPacket rid path) s = handleLstat rid path s"
| "dispatch (FxpMkdirPacket rid path attrs) s = handleMkdir rid path attrs s"
| "dispatch (FxpOpendirPacket rid path) s = handleOpenDir rid path s"
| "dispatch (FxpOpenPacket rid path pflags attrs) s = handleOpen rid path pflags attrs s"
| "dispatch (FxpReaddirPacket rid hid) s = handleReadDir rid hid s"
| "dispatch (FxpReadlinkPacket rid path) s = handleReadLink rid s"
| "dispatch (FxpReadPacket rid hid off len) s = handleRead rid hid off len s"
| "dispatch (FxpRealpathPacket rid path) s = handleRealPath rid path s"
| "dispatch (FxpRemovePacket rid filename) s = handleRemove rid filename s"
| "dispatch (FxpRenamePacket rid oldpath newpath) s = handleRename rid oldpath newpath s"
| "dispatch (FxpRmdirPacket rid path) s = handleRmdir rid path s"
| "dispatch (FxpSetStatPacket rid path attrs) s = handleSetStat rid path attrs s"
| "dispatch (FxpStatPacket rid path) s = handleStat rid path s"
| "dispatch (FxpSymlinkPacket rid target link) s = handleSymlink rid s"
| "dispatch (FxpWritePacket rid hid off len data) s = handleWrite rid hid off len data s"
| "dispatch req s = s\<lparr>dispatcher_exited := True, closed := True\<rparr>"

subsection \<open>The goroutine of a handle\<close>

text \<open>
  The body of the loop \<open>for req := range h.reqChan\<close> on one request, for the file \<open>f\<close>
  the goroutine serves. The result says whether the goroutine returns. The buffer of a
  read has the requested length and starts as zeros; \<open>buf[:n]\<close> panics when \<open>n\<close> is
  negative or beyond it.
\<close>

fun fileRequest :: "File \<Rightarrow> Packet \<Rightarrow> Session \<Rightarrow> Session \<times> bool" where
  "fileRequest f (FxpFstatPacket rid hid) s =
     (case call (File_Stat f) s of
        (Inl err, s) \<Rightarrow> (respondError rid err s, False)
      | (Inr st, s) \<Rightarrow> (Respond (FxpStatResponse rid (fileStatToSFTPStat st)) s, False))"
| "fileRequest f (FxpWritePacket rid hid off len data) s =
     (case call (File_WriteAt f data off) s of
        ((n, Some err), s) \<Rightarrow> (respondError rid err s, False)
      | ((n, None), s) \<Rightarrow> (respondOk rid s, False))"
| "fileRequest f (FxpReadPacket rid hid off len) s =
     (if len > 1024 * 1024 then (respondError rid ErrBadRead s, False)
      else
        (case call (File_ReadAt f (unat len) off) s of
           ((stored, n, err), s) \<Rightarrow>
             (let buf = take (unat len) (stored @ replicate (unat len - length stored) 0)
              in case (if n = 0 then err else None) of
                   Some e \<Rightarrow> (respondError rid e s, False)
                 | None \<Rightarrow>
                     if n < 0 \<or> n > int (unat len) then (s\<lparr>crashed := True\<rparr>, True)
                     else (Respond (FxpDataPacket rid (of_int n) (take (nat n) buf)) s, False))))"
| "fileRequest f (FxpReaddirPacket rid hid) s =
     (case call (File_Readdir f 64) s of
        (Inl err, s) \<Rightarrow> (respondError rid err s, False)
      | (Inr stats, s) \<Rightarrow>
          (Respond (FxpNamePacket rid
             (map (\<lambda>stat. \<lparr>Name = Info_Name stat, LongName = runLsStat (lib s) stat,
                            Attrs = fileStatToSFTPStat stat\<rparr>) stats)) s, False))"
| "fileRequest f (FxpClosePacket rid hid) s =
     (case call (File_Close f) s of
        (Some err, s) \<Rightarrow> (respondError rid err s, True)
      | (None, s) \<Rightarrow> (respondOk rid s, True))"
| "fileRequest f req s = (s, False)"

subsection \<open>The reader and the runs of a session\<close>

lemma ReadFull_rest:
  "ReadFull r n = Ok (b, r') \<Longrightarrow> n \<le> length r \<and> length r' = length r - n"
  by (auto simp: ReadFull_def split: if_splits)

lemma ReadPacket_shorter:
  "ReadPacket r = Ok (pkt, r') \<Longrightarrow> length r' < length r"
proof -
  assume ok: "ReadPacket r = Ok (pkt, r')"
  then obtain b r1 where hdr: "ReadFull r 4 = Ok (b, r1)"
    by (auto simp: ReadPacket_def split: result.splits)
  with ok obtain l :: uint32 and b2 where body: "ReadFull r1 (unat l) = Ok (b2, r')"
    by (auto simp: ReadPacket_def andThen_def
             split: result.splits option.splits if_splits list.splits)
  from ReadFull_rest [OF hdr] ReadFull_rest [OF body] show ?thesis
    by auto
qed

text \<open>
  The reader goroutine decodes packets until \<open>ReadPacket\<close> fails; then it leaves its loop
  and its deferred \<open>shutdown\<close> closes the session. \<open>readerLoop\<close> gives the packets it
  posts to the inbox, and the failure that ends the loop (\<open>None\<close> for a panic).
\<close>

function readerLoop :: "byte list \<Rightarrow> Packet list \<times> error option" where
  "readerLoop r =
     (case ReadPacket r of
        Panic \<Rightarrow> ([], None)
      | Error err \<Rightarrow> ([], Some err)
      | Ok (req, r') \<Rightarrow> (case readerLoop r' of (reqs, e) \<Rightarrow> (req # reqs, e)))"
  by pat_completeness auto
termination
  by (relation "measure length") (auto dest: ReadPacket_shorter)

declare readerLoop.simps [simp del]

text \<open>The session \<open>Serve\<close> creates, with the packets of the stream \<open>rw\<close> in its inbox.\<close>

definition newSession :: "Options \<Rightarrow> VFS \<Rightarrow> Library \<Rightarrow> byte list \<Rightarrow> Session" where
  "newSession opt vfs l rw =
     \<lparr>Options = opt, fs = vfs, files = [], inbox = fst (readerLoop rw), outbox = [],
      closed = False, fcounter = 0, world = [], workers = [], dispatcher_exited = False,
      crashed = False, lib = l\<rparr>"

text \<open>
  The goroutines run interleaved. A schedule lists who moves: the dispatcher takes the
  next packet of the inbox (\<open>Dispatch\<close>) or sees the closed signal and returns
  (\<open>SeeClosed\<close>); the goroutine of a handle takes the next packet of its channel
  (\<open>Work\<close>); the reader or the writer leaves and closes the session (\<open>Shutdown\<close>). A move
  that is not possible changes nothing. A channel is a queue here, so the dispatcher
  never waits for a goroutine to receive: every run of the Go program is a schedule, and
  some schedules are runs the Go program does not have.
\<close>

datatype action = Dispatch | SeeClosed | Work nat | Shutdown

fun step :: "action \<Rightarrow> Session \<Rightarrow> Session" where
  "step Dispatch s =
     (if dispatcher_exited s \<or> crashed s then s
      else case inbox s of
             [] \<Rightarrow> s
           | req # rest \<Rightarrow> dispatch req (s\<lparr>inbox := rest\<rparr>))"
| "step SeeClosed s =
     (if closed s \<and> \<not> crashed s then s\<lparr>dispatcher_exited := True\<rparr> else s)"
| "step (Work i) s =
     (if i < length (workers s) \<and> \<not> exited (workers s ! i) \<and> \<not> crashed s then
        (case pending (workers s ! i) of
           [] \<Rightarrow> s
         | req # rest \<Rightarrow>
             (case fileRequest (served (workers s ! i)) req
                     (s\<lparr>workers := (workers s)[i := (workers s ! i)\<lparr>pending := rest\<rparr>]\<rparr>) of
                (s, returns) \<Rightarrow>
                  if returns
                  then s\<lparr>workers := (workers s)[i := (workers s ! i)\<lparr>exited := True\<rparr>]\<rparr>
                  else s))
      else s)"
| "step Shutdown s = s\<lparr>closed := True\<rparr>"

fun exec :: "action list \<Rightarrow> Session \<Rightarrow> Session" where
  "exec [] s = s"
| "exec (a # as) s = exec as (step a s)"

section \<open>Concrete backends and sessions\<close>

text \<open>
  A backend on which every call succeeds: every path is a directory or a regular file,
  as \<open>isdir\<close> says, and every file holds the five bytes of \<open>Hello\<close>. The session
  \<open>testSession m vfs\<close> is the one \<open>Serve\<close> creates for \<open>MaxFiles = m\<close> on an empty stream.
\<close>

definition testInfo :: "bool \<Rightarrow> FileInfo" where
  "testInfo isdir =
     \<lparr>Info_Name = ''x'', Info_Size = 11, Info_Mode = 0x1A4, Info_ModTime = 1577934245,
      Info_IsDir = isdir\<rparr>"

definition testBackend :: "bool \<Rightarrow> Backend" where
  "testBackend isdir =
     \<lparr>on_Chmod = (\<lambda>w name mode. None),
      on_Open = (\<lambda>w path. None),
      on_OpenFile = (\<lambda>w name flag perm. None),
      on_Mkdir = (\<lambda>w path perm. None),
      on_Stat = (\<lambda>w path. Inr (testInfo isdir)),
      on_Rename = (\<lambda>w from to. None),
      on_Remove = (\<lambda>w path. None),
      on_Close = (\<lambda>w. None),
      on_FileName = (\<lambda>fid. ''x''),
      on_FileChmod = (\<lambda>w fid mode. None),
      on_FileRead = (\<lambda>w fid n. (take n [72, 101, 108, 108, 111], int (min n 5), None)),
      on_FileReadAt =
        (\<lambda>w fid n off. (take n [72, 101, 108, 108, 111], int (min n 5), None)),
      on_FileReaddir = (\<lambda>w fid n. Inl EOF),
      on_FileReaddirnames = (\<lambda>w fid n. Inl EOF),
      on_FileWrite = (\<lambda>w fid buf. (int (length buf), None)),
      on_FileWriteAt = (\<lambda>w fid buf off. (int (length buf), None)),
      on_FileStat = (\<lambda>w fid. Inr (testInfo isdir)),
      on_FileClose = (\<lambda>w fid. None)\<rparr>"

definition testLibrary :: Library where
  "testLibrary = \<lparr>path_Clean = (\<lambda>p. p), runLsStat = (\<lambda>st. Info_Name st)\<rparr>"

definition testSession :: "int \<Rightarrow> VFS \<Rightarrow> Session" where
  "testSession m vfs = newSession \<lparr>Debug = False, MaxFiles = m\<rparr> vfs testLibrary []"

lemma readerLoop_Nil: "readerLoop [] = ([], Some EOF)"
  by (simp add: readerLoop.simps ReadPacket_def ReadFull_def)

lemma testSession_eq:
  "testSession m vfs =
     \<lparr>Options = \<lparr>Debug = False, MaxFiles = m\<rparr>, fs = vfs, files = [], inbox = [],
      outbox = [], closed = False, fcounter = 0, world = [], workers = [],
      dispatcher_exited = False, crashed = False, lib = testLibrary\<rparr>"
  by (simp add: testSession_def newSession_def readerLoop_Nil)

section \<open>File attributes on the wire\<close>

text \<open>
  C1. The claim: decoding the bytes that encode a \<open>FileStat\<close> gives back every field
  whose bit is set in its flags, and consumes exactly those bytes. The decoder has no
  branch for the SIZE bit. For the attributes with flags SIZE and PERMISSIONS, size 5 and
  mode 0755, the encoder writes sixteen bytes; the decoder reads the flags, then takes
  the first four bytes of the size for the mode, so that it returns size 0 and mode 0 and
  leaves eight bytes unread.
\<close>

theorem unmarshalFileStatSafe_skips_size:
  "marshalFileStat [] (EmptyFileStat\<lparr>Flags := 5, Size := 5, Mode := 0x1ED\<rparr>)
     = [0, 0, 0, 5,  0, 0, 0, 0, 0, 0, 0, 5,  0, 0, 1, 0xED]
   \<and> unmarshalFileStatSafe
       (marshalFileStat [] (EmptyFileStat\<lparr>Flags := 5, Size := 5, Mode := 0x1ED\<rparr>))
       EmptyFileStat
     = Ok ([0, 0, 0, 5, 0, 0, 1, 0xED], EmptyFileStat\<lparr>Flags := 5, Size := 0, Mode := 0\<rparr>)"
  by (simp add: marshalFileStat_def marshalUint32_def marshalUint64_def
        unmarshalFileStatSafe_def unmarshalUint32Safe_def EmptyFileStat_def FILEXFER_defs)

section \<open>The error mapper\<close>

text \<open>
  C10. For every error that is not \<open>io.EOF\<close>, not \<open>os.ErrNotExist\<close>, not a permission
  error and not the unsupported-operation sentinel, the status \<open>respondError\<close> hands to
  \<open>Respond\<close> has the code \<open>FX_FAILURE\<close> and the message \<open>error\<close>; the sentinels
  \<open>ErrBadRead\<close>, \<open>ErrInvalidHandle\<close> and \<open>ErrTooManyOpenFiles\<close> are among these errors.
\<close>

theorem respondError_failure:
  "(err \<noteq> EOF \<and> err \<noteq> ErrNotExist \<and> \<not> IsPermission err \<and> err \<noteq> ErrUnsupported
      \<longrightarrow> respondError rid err s = Respond (MakeStatus rid ''error'' FX_FAILURE) s)
   \<and> respondError rid ErrBadRead s = Respond (MakeStatus rid ''error'' FX_FAILURE) s
   \<and> respondError rid ErrInvalidHandle s = Respond (MakeStatus rid ''error'' FX_FAILURE) s
   \<and> respondError rid ErrTooManyOpenFiles s = Respond (MakeStatus rid ''error'' FX_FAILURE) s"
  by (simp add: respondError_def IsPermission_def)

theorem respondError_failure_witness:
  "respondError 7 (OtherError ''disk full'') (testSession 64 (backendVFS (testBackend False)))
     = (testSession 64 (backendVFS (testBackend False)))
         \<lparr>outbox := [FxpStatusPacket 7 \<lparr>Code = 4, Msg = ''error'', Lang = []\<rparr>]\<rparr>"
  using respondError_failure
    [of "OtherError ''disk full''" 7 "testSession 64 (backendVFS (testBackend False))"]
  by (simp add: IsPermission_def Respond_def MakeStatus_def FX_FAILURE_def testSession_eq)

section \<open>REMOVE and RMDIR\<close>

text \<open>
  C7. On a backend whose \<open>stat\<close> of the target succeeds, in an open session: a REMOVE of
  a directory and an RMDIR of a non-directory are answered with the status
  \<open>FX_OP_UNSUPPORTED\<close>, and the only call the backend sees is the \<open>stat\<close>; when the
  check passes, the backend sees the \<open>stat\<close> and then \<open>remove\<close> on the same path.
\<close>

theorem handleRemove_handleRmdir_stat_check:
  assumes "fs s = backendVFS B" and "\<not> closed s" and "on_Stat B (world s) p = Inr st"
  shows "world (handleRemove rid p s)
           = world s @ (if Info_IsDir st then [CallStat p] else [CallStat p, CallRemove p])
       \<and> world (handleRmdir rid p s)
           = world s @ (if Info_IsDir st then [CallStat p, CallRemove p] else [CallStat p])
       \<and> (if Info_IsDir st then outbox (handleRemove rid p s)
           else outbox (handleRmdir rid p s))
           = outbox s @ [MakeStatus rid ''unsupported operation'' FX_OP_UNSUPPORTED]"
  using assms
  by (auto simp: handleRemove_def handleRmdir_def call_def backendVFS_def respondError_def
        respondOk_def Respond_def IsPermission_def split: option.splits)

theorem handleRemove_handleRmdir_stat_check_witness:
  "world (handleRemove 5 ''/d'' (testSession 64 (backendVFS (testBackend True))))
     = [CallStat ''/d'']
   \<and> world (handleRmdir 5 ''/d'' (testSession 64 (backendVFS (testBackend True))))
     = [CallStat ''/d'', CallRemove ''/d'']
   \<and> outbox (handleRemove 5 ''/d'' (testSession 64 (backendVFS (testBackend True))))
     = [FxpStatusPacket 5 \<lparr>Code = 8, Msg = ''unsupported operation'', Lang = []\<rparr>]"
  using handleRemove_handleRmdir_stat_check
    [of "testSession 64 (backendVFS (testBackend True))" "testBackend True" "''/d''"
        "testInfo True" 5]
  by (simp add: testSession_eq testBackend_def testInfo_def MakeStatus_def
        FX_OP_UNSUPPORTED_def)

section \<open>Decoding never panics\<close>












lemma unmarshalFileStatSafe_shorter:
  "unmarshalFileStatSafe b st = Ok (b', st') \<Longrightarrow> length b' < length b"
  by (auto simp: unmarshalFileStatSafe_def Let_def split: result.splits if_splits
           dest!: unmarshalUint32Safe_shorter)
















section \<open>Framing\<close>


lemma char_of_48: "char_of (48::nat) = CHR ''0''"
  by code_simp


section \<open>FSETSTAT\<close>

text \<open>
  C2. The claim: an FSETSTAT request is looked up in the handle table and answered, with
  an invalid-handle status when the handle is unknown, and does not end the session.
  \<open>ReadPacket\<close> decodes the request, and the dispatcher has no case for it: it reaches
  \<open>default\<close>, where the dispatcher returns and the session closes, with no response. So it
  is for the frame of \<open>FSETSTAT{id=1, handle="0", attrs{flags=0}}\<close> on a new session.
\<close>

theorem dispatch_FSetStat_closes_session:
  "ReadPacket [0, 0, 0, 14, 10, 0, 0, 0, 1, 0, 0, 0, 1, 0x30, 0, 0, 0, 0]
     = Ok (FxpFSetStatPacket 1 ''0'' EmptyFileStat, [])
   \<and> dispatch (FxpFSetStatPacket 1 ''0'' EmptyFileStat)
       (testSession 64 (backendVFS (testBackend False)))
     = (testSession 64 (backendVFS (testBackend False)))
         \<lparr>dispatcher_exited := True, closed := True\<rparr>
   \<and> outbox (dispatch (FxpFSetStatPacket 1 ''0'' EmptyFileStat)
       (testSession 64 (backendVFS (testBackend False)))) = []"
  by (simp add: ReadPacket_def ReadFull_def UnmarshalBinary_def FXP_defs andThen_def
        unmarshalIDStringAttrs_def unmarshalUint32Safe_def unmarshalStringSafe_def
        unmarshalFileStatSafe_def string_of_bytes_def char_of_48 FILEXFER_defs
        EmptyFileStat_def word_le_nat_alt word_less_nat_alt testSession_eq)

section \<open>The limit on open handles\<close>







section \<open>The read-only wrapper\<close>

lemma writeAttempt_flags:
  "flag AND O_WRONLY \<noteq> 0 \<or> flag AND O_RDWR \<noteq> 0 \<or> flag AND O_CREATE \<noteq> 0
     \<or> flag AND O_TRUNC \<noteq> 0 \<or> flag AND O_APPEND \<noteq> 0
   \<Longrightarrow> writeAttempt flag"
  by (auto simp: writeAttempt_def bit.conj_disj_distrib or_eq_0_iff)

lemma openFlags_WRITE_CREAT: "openFlags (FXF_WRITE OR FXF_CREAT) = (O_WRONLY OR O_CREATE, 0)"
  by (simp add: openFlags_def FXF_defs O_defs)

lemma writeAttempt_WRONLY_CREATE: "writeAttempt (O_WRONLY OR O_CREATE)"
  by (simp add: writeAttempt_def O_defs)

text \<open>
  C4. Whatever VFS or file the wrapper holds, its \<open>Chmod\<close>, \<open>Mkdir\<close>, \<open>Remove\<close> and
  \<open>Rename\<close>, the \<open>WriteAt\<close> and \<open>Chmod\<close> of its files, and its \<open>OpenFile\<close> with a flag
  that asks for writing, creation, truncation or appending return the permission error
  and leave the world as it is: the result does not depend on the wrapped object, so
  none of its methods ran. \<open>Open\<close>, \<open>Stat\<close> and the \<open>Read\<close>, \<open>ReadAt\<close>, \<open>Readdir\<close>,
  \<open>Stat\<close> and \<open>Close\<close> of a file are those of the wrapped object. Hence an OPEN with
  the flags WRITE and CREAT, once admitted by an open session over the wrapper, is
  answered with the status \<open>FX_PERMISSION_DENIED\<close>, and in every session it leaves the
  world as it is.
\<close>

theorem ReadOnlyVFS_denies_writes:
  "Chmod (ReadOnlyVFS Fs) name mode w = (Some ErrPermission, w)
   \<and> Mkdir (ReadOnlyVFS Fs) path mode w = (Some ErrPermission, w)
   \<and> Remove (ReadOnlyVFS Fs) path w = (Some ErrPermission, w)
   \<and> Rename (ReadOnlyVFS Fs) from to w = (Some ErrPermission, w)
   \<and> File_WriteAt (ReadOnlyFile F) buf off w = ((0, Some ErrPermission), w)
   \<and> File_Chmod (ReadOnlyFile F) mode w = (Some ErrPermission, w)
   \<and> (flag AND O_WRONLY \<noteq> 0 \<or> flag AND O_RDWR \<noteq> 0 \<or> flag AND O_CREATE \<noteq> 0
        \<or> flag AND O_TRUNC \<noteq> 0 \<or> flag AND O_APPEND \<noteq> 0
      \<longrightarrow> OpenFile (ReadOnlyVFS Fs) name flag perm w = (Inl ErrPermission, w))
   \<and> IsPermission ErrPermission
   \<and> Open (ReadOnlyVFS Fs) path w
       = (case Open Fs path w of
            (Inl err, w') \<Rightarrow> (Inl err, w')
          | (Inr f, w') \<Rightarrow> (Inr (ReadOnlyFile f), w'))
   \<and> Stat (ReadOnlyVFS Fs) path w = Stat Fs path w
   \<and> File_Read (ReadOnlyFile F) n w = File_Read F n w
   \<and> File_ReadAt (ReadOnlyFile F) n off w = File_ReadAt F n off w
   \<and> File_Readdir (ReadOnlyFile F) k w = File_Readdir F k w
   \<and> File_Stat (ReadOnlyFile F) w = File_Stat F w
   \<and> File_Close (ReadOnlyFile F) w = File_Close F w
   \<and> (fs s = ReadOnlyVFS Fs \<and> \<not> closed s \<and> int (length (files s)) \<le> MaxFiles (Options s)
      \<longrightarrow> handleOpen rid path (FXF_WRITE OR FXF_CREAT) attrs s
          = s\<lparr>outbox := outbox s
               @ [MakeStatus rid ''permission denied'' FX_PERMISSION_DENIED]\<rparr>)
   \<and> (fs s = ReadOnlyVFS Fs
      \<longrightarrow> world (handleOpen rid path (FXF_WRITE OR FXF_CREAT) attrs s) = world s)"
proof -
  have wrapper: "flag AND O_WRONLY \<noteq> 0 \<or> flag AND O_RDWR \<noteq> 0 \<or> flag AND O_CREATE \<noteq> 0
        \<or> flag AND O_TRUNC \<noteq> 0 \<or> flag AND O_APPEND \<noteq> 0
      \<longrightarrow> OpenFile (ReadOnlyVFS Fs) name flag perm w = (Inl ErrPermission, w)"
    using writeAttempt_flags [of flag] by (auto simp: ReadOnlyVFS_def)
  have denied: "fs s = ReadOnlyVFS Fs \<Longrightarrow> \<not> closed s
      \<Longrightarrow> int (length (files s)) \<le> MaxFiles (Options s)
      \<Longrightarrow> handleOpen rid path (FXF_WRITE OR FXF_CREAT) attrs s
          = s\<lparr>outbox := outbox s
               @ [MakeStatus rid ''permission denied'' FX_PERMISSION_DENIED]\<rparr>"
    by (simp add: handleOpen_def openFlags_WRITE_CREAT call_def ReadOnlyVFS_def
          writeAttempt_WRONLY_CREATE respondError_def IsPermission_def Respond_def)
  have untouched: "fs s = ReadOnlyVFS Fs
      \<Longrightarrow> world (handleOpen rid path (FXF_WRITE OR FXF_CREAT) attrs s) = world s"
    by (simp add: handleOpen_def openFlags_WRITE_CREAT call_def ReadOnlyVFS_def
          writeAttempt_WRONLY_CREATE respondError_def IsPermission_def Respond_def)
  show ?thesis
    using wrapper denied untouched
    by (simp add: ReadOnlyVFS_def ReadOnlyFile_def IsPermission_def)
qed

theorem ReadOnlyVFS_denies_writes_witness:
  "OpenFile (ReadOnlyVFS (backendVFS (testBackend False))) ''/x'' 0x41 0x1ED []
     = (Inl ErrPermission, [])
   \<and> handleOpen 1 ''/x'' (FXF_WRITE OR FXF_CREAT) EmptyFileStat
       (testSession 64 (ReadOnlyVFS (backendVFS (testBackend False))))
     = (testSession 64 (ReadOnlyVFS (backendVFS (testBackend False))))
         \<lparr>outbox := [FxpStatusPacket 1 \<lparr>Code = 3, Msg = ''permission denied'', Lang = []\<rparr>]\<rparr>
   \<and> world (handleOpen 1 ''/x'' (FXF_WRITE OR FXF_CREAT) EmptyFileStat
       (testSession 64 (ReadOnlyVFS (backendVFS (testBackend False))))) = []"
proof -
  have flag: "(0x41::int) AND O_WRONLY \<noteq> 0"
    by (simp add: O_defs)
  show ?thesis
    using ReadOnlyVFS_denies_writes
        [of "backendVFS (testBackend False)" "''/x''" "0x1ED" "[]" "''/x''" "''/x''" "''/y''"
            "backendFile (testBackend False) 0" "[]" 0 "0x41" "0x1ED" 0 0
            "testSession 64 (ReadOnlyVFS (backendVFS (testBackend False)))" 1 EmptyFileStat]
      flag
    by (simp add: testSession_eq MakeStatus_def FX_PERMISSION_DENIED_def)
qed

section \<open>READ\<close>

text \<open>
  C5. A READ request taken by the goroutine of a handle whose file belongs to a backend.
  When the length is above 1 MiB the reply is the status of \<open>ErrBadRead\<close>, which is
  \<open>FX_FAILURE\<close>, and the world is as before: \<open>ReadAt\<close> is not called. Otherwise the
  backend sees one \<open>ReadAt\<close> on a buffer of the requested length at the offset of the
  request. When it returns \<open>n > 0\<close> bytes, with or without an error, the reply is a data
  packet with the length \<open>n\<close> and the first \<open>n\<close> bytes of the buffer; when it returns no
  byte and an error, the reply is the status of that error, which for \<open>io.EOF\<close> is
  \<open>FX_EOF\<close>.
\<close>

theorem fileRequest_read:
  assumes "f = backendFile B fid"
    and "on_FileReadAt B (world s) fid (unat len) off = (stored, n, err)"
  shows "(if len > 1024 * 1024
       then fileRequest f (FxpReadPacket rid hid off len) s
              = (Respond (MakeStatus rid ''error'' FX_FAILURE) s, False)
       else world (fst (fileRequest f (FxpReadPacket rid hid off len) s))
              = world s @ [CallFileReadAt fid (unat len) off]
         \<and> (0 < n \<and> n \<le> int (unat len) \<longrightarrow>
              fileRequest f (FxpReadPacket rid hid off len) s
                = (Respond
                     (FxpDataPacket rid (of_int n)
                        (take (nat n)
                           (take (unat len) (stored @ replicate (unat len - length stored) 0))))
                     (s\<lparr>world := world s @ [CallFileReadAt fid (unat len) off]\<rparr>), False)
              \<and> length (take (nat n)
                           (take (unat len) (stored @ replicate (unat len - length stored) 0)))
                = nat n)
         \<and> (n = 0 \<longrightarrow>
              (case err of
                 None \<Rightarrow> True
               | Some e \<Rightarrow>
                   fileRequest f (FxpReadPacket rid hid off len) s
                     = (respondError rid e
                          (s\<lparr>world := world s @ [CallFileReadAt fid (unat len) off]\<rparr>),
                        False))))
     \<and> respondError rid EOF s = Respond (MakeStatus rid ''EOF'' FX_EOF) s"
proof -
  have exact: "0 < n \<and> n \<le> int (unat len) \<longrightarrow>
      length (take (nat n) (take (unat len) (stored @ replicate (unat len - length stored) 0)))
        = nat n"
  proof (intro impI)
    assume "0 < n \<and> n \<le> int (unat len)"
    then have "nat n \<le> unat len" by linarith
    then show "length (take (nat n)
        (take (unat len) (stored @ replicate (unat len - length stored) 0))) = nat n"
      by (cases "length stored \<le> unat len") (simp_all add: min_def)
  qed
  have reply: "(if len > 1024 * 1024
       then fileRequest f (FxpReadPacket rid hid off len) s
              = (Respond (MakeStatus rid ''error'' FX_FAILURE) s, False)
       else world (fst (fileRequest f (FxpReadPacket rid hid off len) s))
              = world s @ [CallFileReadAt fid (unat len) off]
         \<and> (0 < n \<and> n \<le> int (unat len) \<longrightarrow>
              fileRequest f (FxpReadPacket rid hid off len) s
                = (Respond
                     (FxpDataPacket rid (of_int n)
                        (take (nat n)
                           (take (unat len) (stored @ replicate (unat len - length stored) 0))))
                     (s\<lparr>world := world s @ [CallFileReadAt fid (unat len) off]\<rparr>), False))
         \<and> (n = 0 \<longrightarrow>
              (case err of
                 None \<Rightarrow> True
               | Some e \<Rightarrow>
                   fileRequest f (FxpReadPacket rid hid off len) s
                     = (respondError rid e
                          (s\<lparr>world := world s @ [CallFileReadAt fid (unat len) off]\<rparr>),
                        False))))"
    using assms
    by (auto simp: call_def backendFile_def respondError_def IsPermission_def Respond_def
             split: option.splits)
  have eof: "respondError rid EOF s = Respond (MakeStatus rid ''EOF'' FX_EOF) s"
    by (simp add: respondError_def)
  from exact reply eof show ?thesis
    by presburger
qed

text \<open>A backend whose files are at their end: a read returns no byte and \<open>io.EOF\<close>.\<close>

definition eofBackend :: Backend where
  "eofBackend = (testBackend False)\<lparr>on_FileReadAt := (\<lambda>w fid n off. ([], 0, Some EOF))\<rparr>"

theorem fileRequest_read_witness:
  "fileRequest (backendFile (testBackend False) 0) (FxpReadPacket 2 ''0'' 0 5)
       (testSession 64 (backendVFS (testBackend False)))
     = ((testSession 64 (backendVFS (testBackend False)))
          \<lparr>outbox := [FxpDataPacket 2 5 [72, 101, 108, 108, 111]],
            world := [CallFileReadAt 0 5 0]\<rparr>, False)
   \<and> fileRequest (backendFile eofBackend 0) (FxpReadPacket 2 ''0'' 5 5)
       (testSession 64 (backendVFS eofBackend))
     = ((testSession 64 (backendVFS eofBackend))
          \<lparr>outbox := [FxpStatusPacket 2 \<lparr>Code = 1, Msg = ''EOF'', Lang = []\<rparr>],
            world := [CallFileReadAt 0 5 5]\<rparr>, False)
   \<and> fileRequest (backendFile (testBackend False) 0) (FxpReadPacket 2 ''0'' 0 0x100001)
       (testSession 64 (backendVFS (testBackend False)))
     = ((testSession 64 (backendVFS (testBackend False)))
          \<lparr>outbox := [FxpStatusPacket 2 \<lparr>Code = 4, Msg = ''error'', Lang = []\<rparr>]\<rparr>, False)"
proof -
  have r1: "on_FileReadAt (testBackend False)
        (world (testSession 64 (backendVFS (testBackend False)))) 0 (unat (5::uint32)) 0
      = ([72, 101, 108, 108, 111], 5, None)"
    by (simp add: testBackend_def)
  have r2: "on_FileReadAt eofBackend
        (world (testSession 64 (backendVFS eofBackend))) 0 (unat (5::uint32)) 5
      = ([], 0, Some EOF)"
    by (simp add: eofBackend_def)
  have r3: "on_FileReadAt (testBackend False)
        (world (testSession 64 (backendVFS (testBackend False)))) 0 (unat (0x100001::uint32)) 0
      = ([72, 101, 108, 108, 111], 5, None)"
    by (simp add: testBackend_def)
  have big: "(0x100001::uint32) > 1024 * 1024" and small: "\<not> (5::uint32) > 1024 * 1024"
    by (simp_all add: word_less_nat_alt)
  show ?thesis
    using fileRequest_read [OF refl r1, of 2 "''0''"] fileRequest_read [OF refl r2, of 2 "''0''"]
      fileRequest_read [OF refl r3, of 2 "''0''"] big small
    by (simp add: testSession_eq Respond_def respondError_def MakeStatus_def FX_defs)
qed

end
